theory Spec2Isabelle
  imports Main
begin

section \<open>CodeChase: rooms, levels, submissions and their row-level policies\<close>

text \<open>
  The repository is a browser client over a PostgreSQL database with row-level security.
  The embedding has three layers:
  \<^item> the schema of \<^verbatim>\<open>supabase/migrations/20250213052139_polished_plain.sql\<close> as records,
    and its \<^verbatim>\<open>CREATE POLICY\<close> statements (with the later policy on \<^verbatim>\<open>users\<close>) as data;
  \<^item> the statements the client can send (insert, select, update, delete), resolved against
    the tables' columns, expanded with those policies and executed under the declared
    constraints;
  \<^item> the handlers of the pages: \<^verbatim>\<open>toggleRoomStatus\<close> (AdminDashboard), \<^verbatim>\<open>handleJoinRoom\<close>
    and \<^verbatim>\<open>fetchData\<close> (Dashboard), \<^verbatim>\<open>runTests\<close> (Room).
  Every handler runs for a signed-in user: each page redirects to the login page when the
  session has no user. The acting identity \<^verbatim>\<open>auth.uid()\<close> is the handlers' \<open>uid\<close> argument,
  and its database role is \<^verbatim>\<open>authenticated\<close>.
\<close>

subsection \<open>Schema\<close>

text \<open>
  A \<^verbatim>\<open>uuid\<close> is only ever compared for equality, and a \<^verbatim>\<open>timestamptz\<close> only stored, so both
  are natural numbers here. Field names carry the table's initial where two tables share a
  column name. The rows are those of the \<^verbatim>\<open>CREATE TABLE\<close> statements; in particular a level
  has no status: \<^verbatim>\<open>public.levels\<close> is created without such a column, although the client's
  interface \<^verbatim>\<open>Level\<close> and its statements name one.
\<close>

type_synonym uuid = nat
type_synonym timestamptz = nat

record user_row =
  u_id :: uuid
  username :: string
  points :: int
  current_level :: int
  u_created_at :: timestamptz

record room_row =
  r_id :: uuid
  r_code :: string
  r_name :: string
  r_status :: string
  created_by :: uuid
  r_created_at :: timestamptz

record participant_row =
  rp_id :: uuid
  rp_room_id :: uuid
  rp_user_id :: uuid
  joined_at :: timestamptz

record test_case =
  tc_input :: string
  expected :: string
  tc_description :: string


record level_row =
  l_id :: uuid
  l_room_id :: uuid
  title :: string
  description :: string
  initial_code :: string
  test_cases :: "test_case list"
  movie_reference :: string
  difficulty :: string
  l_created_at :: timestamptz

record submission_row =
  s_id :: uuid
  s_user_id :: uuid
  s_level_id :: uuid
  s_code :: string
  s_status :: string
  s_points :: int
  submitted_at :: timestamptz

text \<open>
  The database: the five tables of the migration, each a list of rows in insertion order,
  and the identities of the identity provider (\<^verbatim>\<open>auth.users\<close>), which \<^verbatim>\<open>users.id\<close> references.
\<close>

record database =
  auth_users :: "uuid list"
  users :: "user_row list"
  rooms :: "room_row list"
  room_participants :: "participant_row list"
  levels :: "level_row list"
  submissions :: "submission_row list"

datatype table = Users | Rooms | RoomParticipants | Levels | Submissions

subsection \<open>Row-level policies\<close>

text \<open>
  Row-level security is enabled on all five tables. A policy's expression is either a
  condition on the acting identity and the row, or \<^verbatim>\<open>EXISTS (SELECT 1 FROM
  public.room_participants WHERE ...)\<close> with a condition that may also name the columns of
  the subquery's row (the only subqueries of the migration are on that table). Each table
  maps a command to its policy, or to \<open>None\<close> where the migrations create no policy for
  that command.
\<close>

datatype command = SELECT | INSERT | UPDATE | DELETE

datatype 'r policy =
    Check "uuid \<Rightarrow> 'r \<Rightarrow> bool"
  | ExistsParticipant "uuid \<Rightarrow> 'r \<Rightarrow> participant_row \<Rightarrow> bool"

text \<open>
  \<^verbatim>\<open>"Users can read their own data"\<close>: \<^verbatim>\<open>USING (auth.uid() = id)\<close>;
  \<^verbatim>\<open>"Users can insert their own data during registration"\<close>: \<^verbatim>\<open>WITH CHECK (auth.uid() = id)\<close>.
\<close>

fun users_policy :: "command \<Rightarrow> user_row policy option" where
  "users_policy SELECT = Some (Check (\<lambda>uid r. uid = u_id r))"
| "users_policy INSERT = Some (Check (\<lambda>uid r. uid = u_id r))"
| "users_policy UPDATE = None"
| "users_policy DELETE = None"

text \<open>
  \<^verbatim>\<open>"Anyone can read rooms"\<close>: \<^verbatim>\<open>USING (true)\<close>;
  \<^verbatim>\<open>"Admin can create rooms"\<close>: \<^verbatim>\<open>WITH CHECK (auth.uid() = created_by)\<close>.
\<close>

fun rooms_policy :: "command \<Rightarrow> room_row policy option" where
  "rooms_policy SELECT = Some (Check (\<lambda>uid r. True))"
| "rooms_policy INSERT = Some (Check (\<lambda>uid r. uid = created_by r))"
| "rooms_policy UPDATE = None"
| "rooms_policy DELETE = None"

text \<open>
  \<^verbatim>\<open>"Participants can view room details"\<close>:
  \<^verbatim>\<open>USING (EXISTS (SELECT 1 FROM public.room_participants
       WHERE room_id = room_participants.room_id AND user_id = auth.uid()))\<close>.
  The subquery's own \<^verbatim>\<open>FROM\<close> item is named \<^verbatim>\<open>room_participants\<close>, so by SQL's scoping
  (the innermost query level that has the name) both \<^verbatim>\<open>room_id\<close> and
  \<^verbatim>\<open>room_participants.room_id\<close> are columns of the subquery's row \<open>q\<close>; the row \<open>r\<close> that
  is being read does not occur in the condition.
  \<^verbatim>\<open>"Users can join rooms"\<close>: \<^verbatim>\<open>WITH CHECK (auth.uid() = user_id)\<close>.
\<close>

fun room_participants_policy :: "command \<Rightarrow> participant_row policy option" where
  "room_participants_policy SELECT =
     Some (ExistsParticipant (\<lambda>uid r q. rp_room_id q = rp_room_id q \<and> rp_user_id q = uid))"
| "room_participants_policy INSERT = Some (Check (\<lambda>uid r. uid = rp_user_id r))"
| "room_participants_policy UPDATE = None"
| "room_participants_policy DELETE = None"

text \<open>
  \<^verbatim>\<open>"Participants can view levels"\<close>:
  \<^verbatim>\<open>USING (EXISTS (SELECT 1 FROM public.room_participants
       WHERE room_id = levels.room_id AND user_id = auth.uid()))\<close>.
  Here \<^verbatim>\<open>levels.room_id\<close> is the row being read. No policy lets a client insert a level.
\<close>

fun levels_policy :: "command \<Rightarrow> level_row policy option" where
  "levels_policy SELECT =
     Some (ExistsParticipant (\<lambda>uid r q. rp_room_id q = l_room_id r \<and> rp_user_id q = uid))"
| "levels_policy INSERT = None"
| "levels_policy UPDATE = None"
| "levels_policy DELETE = None"

text \<open>
  \<^verbatim>\<open>"Users can submit solutions"\<close>: \<^verbatim>\<open>WITH CHECK (auth.uid() = user_id)\<close>;
  \<^verbatim>\<open>"Users can view their submissions"\<close>: \<^verbatim>\<open>USING (auth.uid() = user_id)\<close>.
\<close>

fun submissions_policy :: "command \<Rightarrow> submission_row policy option" where
  "submissions_policy SELECT = Some (Check (\<lambda>uid r. uid = s_user_id r))"
| "submissions_policy INSERT = Some (Check (\<lambda>uid r. uid = s_user_id r))"
| "submissions_policy UPDATE = None"
| "submissions_policy DELETE = None"

subsection \<open>Expanding a statement with the policies\<close>

text \<open>
  Before a statement runs, the policies of the table it names are added to it: those of
  its command, and for an \<^verbatim>\<open>UPDATE\<close> or \<^verbatim>\<open>DELETE\<close> (whose \<^verbatim>\<open>WHERE\<close> clause reads the rows) the
  \<^verbatim>\<open>SELECT\<close> policies too. A policy with a subquery is expanded in turn: the table the
  subquery scans is read under that table's own \<^verbatim>\<open>SELECT\<close> policies. A table met again while
  its own policies are being expanded ends the statement with SQLSTATE 42P17 (``infinite
  recursion detected in policy for relation''), for every caller and whatever the rows.
  \<open>loops\<close> follows the expansion; its first argument bounds the depth, and with five tables
  a chain of six expansions has met one of them twice.
\<close>

fun policy_subqueries :: "'r policy option \<Rightarrow> table list" where
  "policy_subqueries None = []"
| "policy_subqueries (Some (Check p)) = []"
| "policy_subqueries (Some (ExistsParticipant c)) = [RoomParticipants]"

fun subqueries_of :: "table \<Rightarrow> command \<Rightarrow> table list" where
  "subqueries_of Users cmd = policy_subqueries (users_policy cmd)"
| "subqueries_of Rooms cmd = policy_subqueries (rooms_policy cmd)"
| "subqueries_of RoomParticipants cmd = policy_subqueries (room_participants_policy cmd)"
| "subqueries_of Levels cmd = policy_subqueries (levels_policy cmd)"
| "subqueries_of Submissions cmd = policy_subqueries (submissions_policy cmd)"

fun applied :: "command \<Rightarrow> command list" where
  "applied SELECT = [SELECT]"
| "applied INSERT = [INSERT]"
| "applied UPDATE = [UPDATE, SELECT]"
| "applied DELETE = [DELETE, SELECT]"

fun loops :: "nat \<Rightarrow> table list \<Rightarrow> command \<Rightarrow> table \<Rightarrow> bool" where
  "loops 0 active cmd t = False"
| "loops (Suc n) active cmd t =
     (concat (map (subqueries_of t) (applied cmd)) \<noteq> []
      \<and> (t \<in> set active
         \<or> list_ex (loops n (t # active) SELECT) (concat (map (subqueries_of t) (applied cmd)))))"

definition infinite_recursion :: "command \<Rightarrow> table \<Rightarrow> bool" where
  "infinite_recursion cmd t = loops 6 [] cmd t"

subsection \<open>Statements under row-level security\<close>

text \<open>
  With row-level security enabled, a command without a policy is denied for every row
  (PostgreSQL's default-deny policy). A subquery's scan of \<^verbatim>\<open>room_participants\<close> is under
  that table's \<^verbatim>\<open>SELECT\<close> policy: it returns the rows a plain condition admits, and no row
  when the table has no such policy or when its policy scans the table again (that
  statement is rejected, above).
\<close>

definition subquery_scan :: "database \<Rightarrow> uuid \<Rightarrow> participant_row list" where
  "subquery_scan db uid =
     (case room_participants_policy SELECT of
        Some (Check p) \<Rightarrow> filter (p uid) (room_participants db)
      | Some (ExistsParticipant c) \<Rightarrow> []
      | None \<Rightarrow> [])"

definition permitted :: "'r policy option \<Rightarrow> database \<Rightarrow> uuid \<Rightarrow> 'r \<Rightarrow> bool" where
  "permitted pol db uid r =
     (case pol of
        None \<Rightarrow> False
      | Some (Check p) \<Rightarrow> p uid r
      | Some (ExistsParticipant c) \<Rightarrow> list_ex (c uid r) (subquery_scan db uid))"

text \<open>The rows a table's \<^verbatim>\<open>SELECT\<close> policy admits.\<close>

definition select_rows ::
  "(command \<Rightarrow> 'r policy option) \<Rightarrow> database \<Rightarrow> uuid \<Rightarrow> 'r list \<Rightarrow> 'r list" where
  "select_rows pols db uid rows = filter (permitted (pols SELECT) db uid) rows"

text \<open>
  An \<^verbatim>\<open>UPDATE\<close> patches the rows that its \<^verbatim>\<open>UPDATE\<close> policy admits, that the \<^verbatim>\<open>SELECT\<close>
  policy lets the statement's \<^verbatim>\<open>WHERE\<close> clause read, and that the clause selects; rows the
  policies hide are skipped without an error. A limit \<open>Some n\<close> stops after \<open>n\<close> such rows,
  in stored order. A \<^verbatim>\<open>DELETE\<close> removes rows by the same rule.
\<close>

fun update_first :: "nat option \<Rightarrow> ('r \<Rightarrow> bool) \<Rightarrow> ('r \<Rightarrow> 'r) \<Rightarrow> 'r list \<Rightarrow> 'r list" where
  "update_first lim P f [] = []"
| "update_first lim P f (r # rs) =
     (if lim = Some 0 then r # rs
      else if P r then f r # update_first (map_option (\<lambda>n. n - 1) lim) P f rs
      else r # update_first lim P f rs)"

definition update_rows ::
  "(command \<Rightarrow> 'r policy option) \<Rightarrow> database \<Rightarrow> uuid \<Rightarrow> ('r \<Rightarrow> bool) \<Rightarrow> nat option \<Rightarrow>
   ('r \<Rightarrow> 'r) \<Rightarrow> 'r list \<Rightarrow> 'r list" where
  "update_rows pols db uid wh lim patch rows =
     update_first lim
       (\<lambda>r. permitted (pols UPDATE) db uid r \<and> permitted (pols SELECT) db uid r \<and> wh r)
       patch rows"

definition delete_rows ::
  "(command \<Rightarrow> 'r policy option) \<Rightarrow> database \<Rightarrow> uuid \<Rightarrow> ('r \<Rightarrow> bool) \<Rightarrow> 'r list \<Rightarrow> 'r list" where
  "delete_rows pols db uid wh rows =
     filter
       (\<lambda>r. \<not> (permitted (pols DELETE) db uid r \<and> permitted (pols SELECT) db uid r \<and> wh r))
       rows"

text \<open>
  A statement is rejected with SQLSTATE 42703 when it names a column its table does not
  have, with 22P02 when a value cannot be read as the column's type, with 42P17 when its
  expansion loops; an \<^verbatim>\<open>INSERT\<close>, in this order, with 42501 when the new row fails the
  policy's \<^verbatim>\<open>WITH CHECK\<close>, with 23505 when it repeats a \<^verbatim>\<open>PRIMARY KEY\<close> or \<^verbatim>\<open>UNIQUE\<close> value,
  and with 23503 when it references a row that does not exist. An inserted row carries
  every column: the values of the columns the client leaves out are those of their
  \<^verbatim>\<open>DEFAULT\<close>s. No \<^verbatim>\<open>INSERT\<close> policy of the migrations has a subquery, and the client's inserts
  read nothing back, so an insert is not expanded further.
\<close>

datatype sqlstate =
    UndefinedColumn
  | InvalidTextRepresentation
  | InvalidObjectDefinition
  | InsufficientPrivilege
  | UniqueViolation
  | ForeignKeyViolation

text \<open>
  A \<^verbatim>\<open>SELECT\<close> on a table: the rows the policy admits, unless the expansion loops.
\<close>

definition select_from ::
  "table \<Rightarrow> (command \<Rightarrow> 'r policy option) \<Rightarrow> database \<Rightarrow> uuid \<Rightarrow> 'r list \<Rightarrow> sqlstate + 'r list"
  where
  "select_from t pols db uid rows =
     (if infinite_recursion SELECT t then Inl InvalidObjectDefinition
      else Inr (select_rows pols db uid rows))"

text \<open>
  What a caller that does not look at the error has in hand: the returned rows, or none.
\<close>

definition returned_rows :: "sqlstate + 'r list \<Rightarrow> 'r list" where
  "returned_rows result = (case result of Inl e \<Rightarrow> [] | Inr rows \<Rightarrow> rows)"

definition insert_users :: "database \<Rightarrow> uuid \<Rightarrow> user_row \<Rightarrow> sqlstate + database" where
  "insert_users db uid row =
     (if \<not> permitted (users_policy INSERT) db uid row then Inl InsufficientPrivilege
      else if u_id row \<in> set (map u_id (users db))
           \<or> username row \<in> set (map username (users db)) then Inl UniqueViolation
      else if u_id row \<notin> set (auth_users db) then Inl ForeignKeyViolation
      else Inr (db\<lparr>users := users db @ [row]\<rparr>))"

definition insert_rooms :: "database \<Rightarrow> uuid \<Rightarrow> room_row \<Rightarrow> sqlstate + database" where
  "insert_rooms db uid row =
     (if \<not> permitted (rooms_policy INSERT) db uid row then Inl InsufficientPrivilege
      else if r_id row \<in> set (map r_id (rooms db))
           \<or> r_code row \<in> set (map r_code (rooms db)) then Inl UniqueViolation
      else if created_by row \<notin> set (map u_id (users db)) then Inl ForeignKeyViolation
      else Inr (db\<lparr>rooms := rooms db @ [row]\<rparr>))"

definition insert_room_participants ::
  "database \<Rightarrow> uuid \<Rightarrow> participant_row \<Rightarrow> sqlstate + database" where
  "insert_room_participants db uid row =
     (if \<not> permitted (room_participants_policy INSERT) db uid row
      then Inl InsufficientPrivilege
      else if rp_id row \<in> set (map rp_id (room_participants db))
           \<or> (rp_room_id row, rp_user_id row)
               \<in> set (map (\<lambda>q. (rp_room_id q, rp_user_id q)) (room_participants db))
      then Inl UniqueViolation
      else if \<not> (rp_room_id row \<in> set (map r_id (rooms db))
                \<and> rp_user_id row \<in> set (map u_id (users db)))
      then Inl ForeignKeyViolation
      else Inr (db\<lparr>room_participants := room_participants db @ [row]\<rparr>))"

definition insert_levels :: "database \<Rightarrow> uuid \<Rightarrow> level_row \<Rightarrow> sqlstate + database" where
  "insert_levels db uid row =
     (if \<not> permitted (levels_policy INSERT) db uid row then Inl InsufficientPrivilege
      else if l_id row \<in> set (map l_id (levels db)) then Inl UniqueViolation
      else if l_room_id row \<notin> set (map r_id (rooms db)) then Inl ForeignKeyViolation
      else Inr (db\<lparr>levels := levels db @ [row]\<rparr>))"

definition insert_submissions ::
  "database \<Rightarrow> uuid \<Rightarrow> submission_row \<Rightarrow> sqlstate + database" where
  "insert_submissions db uid row =
     (if \<not> permitted (submissions_policy INSERT) db uid row then Inl InsufficientPrivilege
      else if s_id row \<in> set (map s_id (submissions db)) then Inl UniqueViolation
      else if \<not> (s_user_id row \<in> set (map u_id (users db))
                \<and> s_level_id row \<in> set (map l_id (levels db)))
      then Inl ForeignKeyViolation
      else Inr (db\<lparr>submissions := submissions db @ [row]\<rparr>))"

text \<open>
  \<^verbatim>\<open>gen_random_uuid()\<close>, the default of every \<^verbatim>\<open>id\<close> column but \<^verbatim>\<open>users.id\<close>: an identifier
  none of the table's rows has.
\<close>

definition gen_random_uuid :: "uuid list \<Rightarrow> uuid" where
  "gen_random_uuid used = Suc (fold max used 0)"

subsection \<open>The statements a client can send\<close>

text \<open>
  Every write the datastore's client interface offers, on every table: the handlers below
  send some of them, and any signed-in user can send each with its own session. \<open>SignUp\<close>
  is the identity provider registering the acting identity in \<^verbatim>\<open>auth.users\<close>.
  The condition and the new values of an \<^verbatim>\<open>UPDATE\<close> or \<^verbatim>\<open>DELETE\<close> are functions of the row,
  so they name columns the table has. Such a statement is expanded with the policies first;
  when that ends, it succeeds, also when it touches no row.
\<close>

datatype action =
    SignUp
  | InsertUsers user_row
  | InsertRooms room_row
  | InsertRoomParticipants participant_row
  | InsertLevels level_row
  | InsertSubmissions submission_row
  | UpdateUsers "user_row \<Rightarrow> bool" "nat option" "user_row \<Rightarrow> user_row"
  | UpdateRooms "room_row \<Rightarrow> bool" "nat option" "room_row \<Rightarrow> room_row"
  | UpdateRoomParticipants "participant_row \<Rightarrow> bool" "nat option"
      "participant_row \<Rightarrow> participant_row"
  | UpdateLevels "level_row \<Rightarrow> bool" "nat option" "level_row \<Rightarrow> level_row"
  | UpdateSubmissions "submission_row \<Rightarrow> bool" "nat option"
      "submission_row \<Rightarrow> submission_row"
  | DeleteUsers "user_row \<Rightarrow> bool"
  | DeleteRooms "room_row \<Rightarrow> bool"
  | DeleteRoomParticipants "participant_row \<Rightarrow> bool"
  | DeleteLevels "level_row \<Rightarrow> bool"
  | DeleteSubmissions "submission_row \<Rightarrow> bool"

definition expanded :: "command \<Rightarrow> table \<Rightarrow> database \<Rightarrow> sqlstate + database" where
  "expanded cmd t db' = (if infinite_recursion cmd t then Inl InvalidObjectDefinition else Inr db')"

fun exec :: "uuid \<Rightarrow> action \<Rightarrow> database \<Rightarrow> sqlstate + database" where
  "exec uid SignUp db = Inr (db\<lparr>auth_users := auth_users db @ [uid]\<rparr>)"
| "exec uid (InsertUsers row) db = insert_users db uid row"
| "exec uid (InsertRooms row) db = insert_rooms db uid row"
| "exec uid (InsertRoomParticipants row) db = insert_room_participants db uid row"
| "exec uid (InsertLevels row) db = insert_levels db uid row"
| "exec uid (InsertSubmissions row) db = insert_submissions db uid row"
| "exec uid (UpdateUsers wh lim patch) db =
     expanded UPDATE Users (db\<lparr>users := update_rows users_policy db uid wh lim patch (users db)\<rparr>)"
| "exec uid (UpdateRooms wh lim patch) db =
     expanded UPDATE Rooms (db\<lparr>rooms := update_rows rooms_policy db uid wh lim patch (rooms db)\<rparr>)"
| "exec uid (UpdateRoomParticipants wh lim patch) db =
     expanded UPDATE RoomParticipants
       (db\<lparr>room_participants :=
            update_rows room_participants_policy db uid wh lim patch (room_participants db)\<rparr>)"
| "exec uid (UpdateLevels wh lim patch) db =
     expanded UPDATE Levels
       (db\<lparr>levels := update_rows levels_policy db uid wh lim patch (levels db)\<rparr>)"
| "exec uid (UpdateSubmissions wh lim patch) db =
     expanded UPDATE Submissions
       (db\<lparr>submissions :=
            update_rows submissions_policy db uid wh lim patch (submissions db)\<rparr>)"
| "exec uid (DeleteUsers wh) db =
     expanded DELETE Users (db\<lparr>users := delete_rows users_policy db uid wh (users db)\<rparr>)"
| "exec uid (DeleteRooms wh) db =
     expanded DELETE Rooms (db\<lparr>rooms := delete_rows rooms_policy db uid wh (rooms db)\<rparr>)"
| "exec uid (DeleteRoomParticipants wh) db =
     expanded DELETE RoomParticipants
       (db\<lparr>room_participants :=
            delete_rows room_participants_policy db uid wh (room_participants db)\<rparr>)"
| "exec uid (DeleteLevels wh) db =
     expanded DELETE Levels (db\<lparr>levels := delete_rows levels_policy db uid wh (levels db)\<rparr>)"
| "exec uid (DeleteSubmissions wh) db =
     expanded DELETE Submissions
       (db\<lparr>submissions := delete_rows submissions_policy db uid wh (submissions db)\<rparr>)"

text \<open>
  The client library returns a rejected statement as an error value. \<open>unread\<close> is what a
  caller that does not look at the result is left with: the database after the statement,
  which is the database before it when the statement was rejected. \<open>send\<close> is a statement
  sent that way.
\<close>

definition unread :: "database \<Rightarrow> sqlstate + database \<Rightarrow> database" where
  "unread db result = (case result of Inl e \<Rightarrow> db | Inr db' \<Rightarrow> db')"

definition send :: "uuid \<Rightarrow> action \<Rightarrow> database \<Rightarrow> database" where
  "send uid a db = unread db (exec uid a db)"

text \<open>
  A history is a list of statements, each with the identity that sends it. Beside the
  database, \<open>inserted_by\<close> records each submission row that was accepted, with the
  identity whose statement inserted it.
\<close>

record world =
  store :: database
  inserted_by :: "(uuid \<times> submission_row) list"

definition step :: "uuid \<times> action \<Rightarrow> world \<Rightarrow> world" where
  "step ua w =
     (case exec (fst ua) (snd ua) (store w) of
        Inl e \<Rightarrow> w
      | Inr db' \<Rightarrow>
          \<lparr>store = db',
           inserted_by =
             (case snd ua of
                InsertSubmissions row \<Rightarrow> inserted_by w @ [(fst ua, row)]
              | _ \<Rightarrow> inserted_by w)\<rparr>)"

definition run :: "(uuid \<times> action) list \<Rightarrow> world \<Rightarrow> world" where
  "run history w = fold step history w"

text \<open>
  The record agrees with the table: it lists the table's rows, and each row's \<^verbatim>\<open>user_id\<close> is
  the identity that inserted it.
\<close>

definition provenance_ok :: "world \<Rightarrow> bool" where
  "provenance_ok w =
     (map snd (inserted_by w) = submissions (store w)
      \<and> list_all (\<lambda>(who, row). s_user_id row = who) (inserted_by w))"

subsection \<open>Statements that name their columns\<close>

text \<open>
  The client builds an update from column names: \<^verbatim>\<open>.update({ column: value })\<close> and
  \<^verbatim>\<open>.eq('column', value)\<close>. The database resolves each name against the table's columns. A
  column is its name, the test \<^verbatim>\<open>column = value\<close> and the assignment \<^verbatim>\<open>column = value\<close>, both
  defined for the values of the column's type. The columns of \<^verbatim>\<open>levels\<close> and \<^verbatim>\<open>rooms\<close> are
  those of their \<^verbatim>\<open>CREATE TABLE\<close> statements.
\<close>

datatype sql_value =
    SqlText string
  | SqlUuid uuid
  | SqlTimestamptz timestamptz
  | SqlJsonb "test_case list"

record 'r column =
  col_name :: string
  col_eq :: "sql_value \<Rightarrow> ('r \<Rightarrow> bool) option"
  col_set :: "sql_value \<Rightarrow> ('r \<Rightarrow> 'r) option"

definition text_column :: "string \<Rightarrow> ('r \<Rightarrow> string) \<Rightarrow> (string \<Rightarrow> 'r \<Rightarrow> 'r) \<Rightarrow> 'r column" where
  "text_column n get put =
     \<lparr>col_name = n,
      col_eq = (\<lambda>v. case v of SqlText s \<Rightarrow> Some (\<lambda>r. get r = s) | _ \<Rightarrow> None),
      col_set = (\<lambda>v. case v of SqlText s \<Rightarrow> Some (put s) | _ \<Rightarrow> None)\<rparr>"

definition uuid_column :: "string \<Rightarrow> ('r \<Rightarrow> uuid) \<Rightarrow> (uuid \<Rightarrow> 'r \<Rightarrow> 'r) \<Rightarrow> 'r column" where
  "uuid_column n get put =
     \<lparr>col_name = n,
      col_eq = (\<lambda>v. case v of SqlUuid u \<Rightarrow> Some (\<lambda>r. get r = u) | _ \<Rightarrow> None),
      col_set = (\<lambda>v. case v of SqlUuid u \<Rightarrow> Some (put u) | _ \<Rightarrow> None)\<rparr>"

definition timestamptz_column ::
  "string \<Rightarrow> ('r \<Rightarrow> timestamptz) \<Rightarrow> (timestamptz \<Rightarrow> 'r \<Rightarrow> 'r) \<Rightarrow> 'r column" where
  "timestamptz_column n get put =
     \<lparr>col_name = n,
      col_eq = (\<lambda>v. case v of SqlTimestamptz t \<Rightarrow> Some (\<lambda>r. get r = t) | _ \<Rightarrow> None),
      col_set = (\<lambda>v. case v of SqlTimestamptz t \<Rightarrow> Some (put t) | _ \<Rightarrow> None)\<rparr>"

definition jsonb_column ::
  "string \<Rightarrow> ('r \<Rightarrow> test_case list) \<Rightarrow> (test_case list \<Rightarrow> 'r \<Rightarrow> 'r) \<Rightarrow> 'r column" where
  "jsonb_column n get put =
     \<lparr>col_name = n,
      col_eq = (\<lambda>v. case v of SqlJsonb j \<Rightarrow> Some (\<lambda>r. get r = j) | _ \<Rightarrow> None),
      col_set = (\<lambda>v. case v of SqlJsonb j \<Rightarrow> Some (put j) | _ \<Rightarrow> None)\<rparr>"

definition levels_columns :: "level_row column list" where
  "levels_columns =
     [uuid_column ''id'' l_id (\<lambda>v r. r\<lparr>l_id := v\<rparr>),
      uuid_column ''room_id'' l_room_id (\<lambda>v r. r\<lparr>l_room_id := v\<rparr>),
      text_column ''title'' title (\<lambda>v r. r\<lparr>title := v\<rparr>),
      text_column ''description'' description (\<lambda>v r. r\<lparr>description := v\<rparr>),
      text_column ''initial_code'' initial_code (\<lambda>v r. r\<lparr>initial_code := v\<rparr>),
      jsonb_column ''test_cases'' test_cases (\<lambda>v r. r\<lparr>test_cases := v\<rparr>),
      text_column ''movie_reference'' movie_reference (\<lambda>v r. r\<lparr>movie_reference := v\<rparr>),
      text_column ''difficulty'' difficulty (\<lambda>v r. r\<lparr>difficulty := v\<rparr>),
      timestamptz_column ''created_at'' l_created_at (\<lambda>v r. r\<lparr>l_created_at := v\<rparr>)]"

definition rooms_columns :: "room_row column list" where
  "rooms_columns =
     [uuid_column ''id'' r_id (\<lambda>v r. r\<lparr>r_id := v\<rparr>),
      text_column ''code'' r_code (\<lambda>v r. r\<lparr>r_code := v\<rparr>),
      text_column ''name'' r_name (\<lambda>v r. r\<lparr>r_name := v\<rparr>),
      text_column ''status'' r_status (\<lambda>v r. r\<lparr>r_status := v\<rparr>),
      uuid_column ''created_by'' created_by (\<lambda>v r. r\<lparr>created_by := v\<rparr>),
      timestamptz_column ''created_at'' r_created_at (\<lambda>v r. r\<lparr>r_created_at := v\<rparr>)]"

text \<open>
  Resolving \<^verbatim>\<open>.update(body)\<close> with its \<^verbatim>\<open>.eq\<close> filters gives the condition (every filter
  holds) and the patch (every assignment, in order), or the error of the first unknown
  name, and otherwise of the first value of the wrong type.
\<close>

definition resolve_update ::
  "'r column list \<Rightarrow> (string \<times> sql_value) list \<Rightarrow> (string \<times> sql_value) list \<Rightarrow>
   sqlstate + (('r \<Rightarrow> bool) \<times> ('r \<Rightarrow> 'r))" where
  "resolve_update cols body filters =
     (if \<not> list_all (\<lambda>n. n \<in> set (map col_name cols)) (map fst body @ map fst filters)
      then Inl UndefinedColumn
      else
        (case (those (map (\<lambda>(n, v). Option.bind (find (\<lambda>c. col_name c = n) cols) (\<lambda>c. col_eq c v))
                        filters),
               those (map (\<lambda>(n, v). Option.bind (find (\<lambda>c. col_name c = n) cols) (\<lambda>c. col_set c v))
                        body)) of
           (Some tests, Some assignments) \<Rightarrow>
             Inr (\<lambda>r. list_all (\<lambda>test. test r) tests, \<lambda>r. fold (\<lambda>assign r'. assign r') assignments r)
         | _ \<Rightarrow> Inl InvalidTextRepresentation))"

definition update_levels ::
  "database \<Rightarrow> uuid \<Rightarrow> (string \<times> sql_value) list \<Rightarrow> (string \<times> sql_value) list \<Rightarrow> nat option \<Rightarrow>
   sqlstate + database" where
  "update_levels db uid body filters lim =
     (case resolve_update levels_columns body filters of
        Inl e \<Rightarrow> Inl e
      | Inr (wh, patch) \<Rightarrow> exec uid (UpdateLevels wh lim patch) db)"

definition update_rooms ::
  "database \<Rightarrow> uuid \<Rightarrow> (string \<times> sql_value) list \<Rightarrow> (string \<times> sql_value) list \<Rightarrow> nat option \<Rightarrow>
   sqlstate + database" where
  "update_rooms db uid body filters lim =
     (case resolve_update rooms_columns body filters of
        Inl e \<Rightarrow> Inl e
      | Inr (wh, patch) \<Rightarrow> exec uid (UpdateRooms wh lim patch) db)"

subsection \<open>AdminDashboard: \<^verbatim>\<open>toggleRoomStatus\<close>\<close>

text \<open>
  \<^verbatim>\<open>
  const newStatus = currentStatus === 'active' ? 'waiting' : 'active';
  if (newStatus === 'active') {
    // Activate the first level when starting the room
    await supabase.from('levels').update({ status: 'active' })
      .eq('room_id', roomId).eq('status', 'waiting').limit(1);
  }
  await supabase.from('rooms').update({ status: newStatus }).eq('id', roomId);
  \<close>
  The client library returns a rejected statement's error in its result (\<^verbatim>\<open>createRoom\<close> and
  \<^verbatim>\<open>signUp\<close> read that field and throw it themselves); here neither result is read, so the
  handler's \<^verbatim>\<open>catch\<close> branch is not entered.
\<close>

definition toggleRoomStatus :: "database \<Rightarrow> uuid \<Rightarrow> uuid \<Rightarrow> string \<Rightarrow> database" where
  "toggleRoomStatus db uid roomId currentStatus =
     (let newStatus = (if currentStatus = ''active'' then ''waiting'' else ''active'');
          db1 =
            (if newStatus = ''active''
             then unread db
                    (update_levels db uid [(''status'', SqlText ''active'')]
                       [(''room_id'', SqlUuid roomId), (''status'', SqlText ''waiting'')] (Some 1))
             else db)
      in unread db1
           (update_rooms db1 uid [(''status'', SqlText newStatus)] [(''id'', SqlUuid roomId)] None))"

subsection \<open>Dashboard: \<^verbatim>\<open>fetchData\<close> and \<^verbatim>\<open>handleJoinRoom\<close>\<close>

datatype route = RoomRoute uuid

record dashboard =
  roomCode :: string
  dash_error :: string
  activeRooms :: "room_row list"
  topUsers :: "(string \<times> int) list"
  location :: "route option"

text \<open>
  \<^verbatim>\<open>.single()\<close> yields the row when the query returns exactly one, and no data otherwise.
\<close>

definition single :: "'a list \<Rightarrow> 'a option" where
  "single xs = (case xs of [x] \<Rightarrow> Some x | _ \<Rightarrow> None)"

text \<open>
  \<^verbatim>\<open>
  const { data: rooms } = await supabase.from('rooms').select('*').eq('status', 'active').limit(5);
  if (rooms) setActiveRooms(rooms);
  const { data: users } = await supabase.from('users').select('username, points')
    .order('points', { ascending: false }).limit(5);
  if (users) setTopUsers(users);
  \<close>
  A rejected query has no data and leaves the page's list as it was. Rows with equal points
  keep their stored order.
\<close>

definition fetchData :: "database \<Rightarrow> uuid \<Rightarrow> dashboard \<Rightarrow> dashboard" where
  "fetchData db uid st =
     st\<lparr>activeRooms :=
          (case select_from Rooms rooms_policy db uid (rooms db) of
             Inl e \<Rightarrow> activeRooms st
           | Inr rows \<Rightarrow> take 5 (filter (\<lambda>r. r_status r = ''active'') rows)),
        topUsers :=
          (case select_from Users users_policy db uid (users db) of
             Inl e \<Rightarrow> topUsers st
           | Inr rows \<Rightarrow> map (\<lambda>r. (username r, points r)) (take 5 (sort_key (\<lambda>r. - points r) rows)))\<rparr>"

text \<open>
  \<^verbatim>\<open>
  const { data: room } = await supabase.from('rooms').select('id').eq('code', roomCode).single();
  if (!room) { setError('Room not found'); return; }
  await supabase.from('room_participants').insert([{ room_id: room.id, user_id: user.id }]);
  navigate(`/room/${room.id}`);
  \<close>
  The insert leaves \<^verbatim>\<open>id\<close> and \<^verbatim>\<open>joined_at\<close> to their defaults (\<open>now\<close> is the clock's reading).
\<close>

definition handleJoinRoom ::
  "database \<Rightarrow> uuid \<Rightarrow> timestamptz \<Rightarrow> dashboard \<Rightarrow> database \<times> dashboard" where
  "handleJoinRoom db uid now st =
     (case single
             (filter (\<lambda>r. r_code r = roomCode st)
                (returned_rows (select_from Rooms rooms_policy db uid (rooms db)))) of
        None \<Rightarrow> (db, st\<lparr>dash_error := ''Room not found''\<rparr>)
      | Some room \<Rightarrow>
          (send uid
             (InsertRoomParticipants
                \<lparr>rp_id = gen_random_uuid (map rp_id (room_participants db)),
                 rp_room_id = r_id room, rp_user_id = uid, joined_at = now\<rparr>)
             db,
           st\<lparr>location := Some (RoomRoute (r_id room))\<rparr>))"

subsection \<open>Room: \<^verbatim>\<open>runTests\<close>\<close>

text \<open>
  The submitted text runs in the browser's JavaScript engine, which is outside the
  repository: the engine is a parameter. \<^verbatim>\<open>new Function('input', code)\<close> either throws a
  syntax error (given by its message) or gives a callable; a call returns a value, throws a
  value, or does not return. A callable is a function of its argument: the effects a
  submitted program can have on the page or the database are not modelled.

  The handler looks at a thrown value only through \<^verbatim>\<open>err.message\<close>: the value is an error
  with a message, \<^verbatim>\<open>null\<close>, \<^verbatim>\<open>undefined\<close>, or a value whose \<^verbatim>\<open>message\<close> is undefined. It looks at
  a returned value only through \<^verbatim>\<open>output.toString()\<close>, which returns a string, returns
  something that is not a string, or throws. A number is given by the text its \<^verbatim>\<open>toString\<close>
  returns (no floating point is modelled), an object by what its \<^verbatim>\<open>toString\<close> method does.
\<close>

datatype js_thrown = ThrownError string | ThrownNull | ThrownUndefined | ThrownOther

datatype js_toString = ToStr string | ToOther | ToThrows js_thrown

datatype js_value =
    JUndefined
  | JNull
  | JBoolean bool
  | JNumber string
  | JString string
  | JObject js_toString

datatype js_outcome = Returns js_value | Throws js_thrown | Diverges

type_synonym js_function = "string \<Rightarrow> js_outcome"

type_synonym js_engine = "string \<Rightarrow> string + js_function"

text \<open>
  \<^verbatim>\<open>output.toString()\<close>: a property read on \<^verbatim>\<open>undefined\<close> or \<^verbatim>\<open>null\<close> throws a TypeError.
\<close>

fun toString :: "js_value \<Rightarrow> js_toString" where
  "toString JUndefined =
     ToThrows (ThrownError ''Cannot read properties of undefined (reading 'toString')'')"
| "toString JNull =
     ToThrows (ThrownError ''Cannot read properties of null (reading 'toString')'')"
| "toString (JBoolean b) = ToStr (if b then ''true'' else ''false'')"
| "toString (JNumber text) = ToStr text"
| "toString (JString s) = ToStr s"
| "toString (JObject method) = method"

text \<open>
  The specification's \<^verbatim>\<open>String(output)\<close>, for comparison with \<open>toString\<close>: the conversion
  function is defined on \<^verbatim>\<open>undefined\<close> and \<^verbatim>\<open>null\<close> too (what it gives for an object is left
  open here). \<open>passes_spec\<close> is the specification's rule for a test: the callable built from
  the text returns an output, and \<^verbatim>\<open>String(output) === expected\<close>.
\<close>

fun String_spec :: "js_value \<Rightarrow> string option" where
  "String_spec JUndefined = Some ''undefined''"
| "String_spec JNull = Some ''null''"
| "String_spec (JBoolean b) = Some (if b then ''true'' else ''false'')"
| "String_spec (JNumber text) = Some text"
| "String_spec (JString s) = Some s"
| "String_spec (JObject method) = None"


text \<open>
  A test's result. The field \<^verbatim>\<open>output\<close> is \<open>output_str\<close> here; \<open>message\<close> and \<open>output_str\<close> are
  \<open>None\<close> when the field holds no string (\<^verbatim>\<open>message\<close> is then undefined).
\<close>

record TestResult =
  passed :: bool
  message :: "string option"
  output_str :: "string option"

text \<open>
  One test case, the body of the \<^verbatim>\<open>map\<close> callback:
  \<^verbatim>\<open>
  try {
    const testFunction = new Function('input', code);
    const output = testFunction(test.input);
    const passed = output.toString() === test.expected;
    return { passed, message: passed ? 'Test passed!' : 'Test failed', output: output.toString() };
  } catch (err) { return { passed: false, message: err.message }; }
  \<close>
  The callback returns a result, or lets an exception escape, or does not return. Reading
  \<^verbatim>\<open>err.message\<close> in the \<^verbatim>\<open>catch\<close> clause throws a TypeError when the thrown value is \<^verbatim>\<open>null\<close> or
  \<^verbatim>\<open>undefined\<close>: that exception escapes the callback.
\<close>

datatype test_outcome = Declared TestResult | Escapes string | Hangs

fun catch_clause :: "js_thrown \<Rightarrow> test_outcome" where
  "catch_clause (ThrownError msg) =
     Declared \<lparr>passed = False, message = Some msg, output_str = None\<rparr>"
| "catch_clause ThrownOther = Declared \<lparr>passed = False, message = None, output_str = None\<rparr>"
| "catch_clause ThrownNull = Escapes ''Cannot read properties of null (reading 'message')''"
| "catch_clause ThrownUndefined =
     Escapes ''Cannot read properties of undefined (reading 'message')''"

definition run_test :: "js_engine \<Rightarrow> string \<Rightarrow> test_case \<Rightarrow> test_outcome" where
  "run_test engine src test =
     (case engine src of
        Inl msg \<Rightarrow> catch_clause (ThrownError msg)
      | Inr testFunction \<Rightarrow>
          (case testFunction (tc_input test) of
             Diverges \<Rightarrow> Hangs
           | Throws thrown \<Rightarrow> catch_clause thrown
           | Returns out \<Rightarrow>
               (case toString out of
                  ToThrows thrown \<Rightarrow> catch_clause thrown
                | ToOther \<Rightarrow>
                    Declared \<lparr>passed = False, message = Some ''Test failed'', output_str = None\<rparr>
                | ToStr str \<Rightarrow>
                    Declared
                      \<lparr>passed = (str = expected test),
                       message = Some (if str = expected test then ''Test passed!'' else ''Test failed''),
                       output_str = Some str\<rparr>)))"



text \<open>A test case passes when its callback returns a result that is marked passed.\<close>

definition passes :: "js_engine \<Rightarrow> string \<Rightarrow> test_case \<Rightarrow> bool" where
  "passes engine src test =
     (case run_test engine src test of
        Declared r \<Rightarrow> passed r
      | Escapes msg \<Rightarrow> False
      | Hangs \<Rightarrow> False)"

record room_page =
  currentLevel :: "level_row option"
  code :: string
  testResults :: "TestResult list"
  isRunning :: bool
  room_error :: string



subsection \<open>Scenario data\<close>

text \<open>
  The three levels \<^verbatim>\<open>createRoom\<close> seeds for a room, as the table stores them (the status the
  client also sends has no column), with the identifiers and the creation time the database
  gives them.
\<close>

definition default_levels :: "uuid \<Rightarrow> uuid \<Rightarrow> timestamptz \<Rightarrow> level_row list" where
  "default_levels room first_id now =
     [\<lparr>l_id = first_id, l_room_id = room,
       title = ''The Matrix's Digital Rain'',
       description = ''Create a function that generates the iconic 'Digital Rain' effect from The Matrix. The function should transform a string into a cascading pattern of characters.'',
       initial_code = ''function digitalRain(input) {\<newline>  // Your code here\<newline>}'',
       test_cases =
         [\<lparr>tc_input = ''hello'', expected = ''h\<newline>e\<newline>l\<newline>l\<newline>o'',
           tc_description = ''Transform 'hello' into a vertical cascade''\<rparr>,
          \<lparr>tc_input = ''neo'', expected = ''n\<newline>e\<newline>o'',
           tc_description = ''Transform 'neo' into a vertical cascade''\<rparr>],
       movie_reference = ''The Matrix (1999)'', difficulty = ''medium'', l_created_at = now\<rparr>,
      \<lparr>l_id = first_id + 1, l_room_id = room,
       title = ''Inception's Dream Levels'',
       description = ''Create a function that calculates how much time passes in reality given the time spent in each dream level, where each level makes time pass 12 times slower.'',
       initial_code = ''function dreamTime(levels) {\<newline>  // Your code here\<newline>}'',
       test_cases =
         [\<lparr>tc_input = ''1'', expected = ''12'',
           tc_description = ''1 hour in level 1 = 12 hours in reality''\<rparr>,
          \<lparr>tc_input = ''2'', expected = ''144'',
           tc_description = ''1 hour in level 2 = 144 hours in reality''\<rparr>],
       movie_reference = ''Inception (2010)'', difficulty = ''hard'', l_created_at = now\<rparr>,
      \<lparr>l_id = first_id + 2, l_room_id = room,
       title = ''Back to the Future Time Circuits'',
       description = ''Create a function that calculates the exact time difference between two dates in years, months, days, hours, and minutes, just like Doc's time circuits!'',
       initial_code = ''function timeDifference(date1, date2) {\<newline>  // Your code here\<newline>}'',
       test_cases =
         [\<lparr>tc_input = ''1985-10-26,1955-11-05'', expected = ''29 years, 11 months, 21 days'',
           tc_description = ''Calculate time difference between key dates''\<rparr>],
       movie_reference = ''Back to the Future (1985)'', difficulty = ''easy'', l_created_at = now\<rparr>]"

text \<open>
  Four identities, of which the first three have a profile row (the fourth signed up, and
  its profile insert was rejected); two rooms in status waiting, each with its three
  levels; user 1 has joined room 10, user 2 room 20, users 3 and 4 no room.
\<close>

definition scenario_db :: database where
  "scenario_db =
     \<lparr>auth_users = [1, 2, 3, 4],
      users =
        [\<lparr>u_id = 1, username = ''trinity'', points = 300, current_level = 1, u_created_at = 0\<rparr>,
         \<lparr>u_id = 2, username = ''morpheus'', points = 500, current_level = 1, u_created_at = 0\<rparr>,
         \<lparr>u_id = 3, username = ''cypher'', points = 0, current_level = 1, u_created_at = 0\<rparr>],
      rooms =
        [\<lparr>r_id = 10, r_code = ''ABC123'', r_name = ''Nebuchadnezzar'', r_status = ''waiting'',
          created_by = 1, r_created_at = 1\<rparr>,
         \<lparr>r_id = 20, r_code = ''XYZ789'', r_name = ''Logos'', r_status = ''waiting'',
          created_by = 2, r_created_at = 1\<rparr>],
      room_participants =
        [\<lparr>rp_id = 1000, rp_room_id = 10, rp_user_id = 1, joined_at = 2\<rparr>,
         \<lparr>rp_id = 1001, rp_room_id = 20, rp_user_id = 2, joined_at = 2\<rparr>],
      levels = default_levels 10 100 1 @ default_levels 20 200 1,
      submissions = []\<rparr>"

text \<open>
  A submission of user 1 for the first level of room 10; the Dashboard of a user who has
  typed the code of room 10; a Room page holding the first level of room 10, with a
  solution in the editor; and an engine in which that solution returns its input's
  characters one per line, the text \<^verbatim>\<open>return input;\<close> returns its input, the text
  \<^verbatim>\<open>throw null;\<close> throws \<^verbatim>\<open>null\<close>, and any other text behaves like a level's starter code,
  whose body declares a function and returns nothing.
\<close>

definition scenario_submission :: submission_row where
  "scenario_submission =
     \<lparr>s_id = 5000, s_user_id = 1, s_level_id = 100,
      s_code = ''return input.split(String()).join(String.fromCharCode(10));'',
      s_status = ''completed'', s_points = 100, submitted_at = 3\<rparr>"

definition scenario_dashboard :: dashboard where
  "scenario_dashboard =
     \<lparr>roomCode = ''ABC123'', dash_error = '''', activeRooms = [], topUsers = [], location = None\<rparr>"



section \<open>Properties\<close>

subsection \<open>Which statements the expansion rejects\<close>

text \<open>
  The policies of \<^verbatim>\<open>users\<close>, \<^verbatim>\<open>rooms\<close> and \<^verbatim>\<open>submissions\<close> have no subquery: no statement on
  them is rejected by the expansion. The \<^verbatim>\<open>SELECT\<close> policy of \<^verbatim>\<open>room_participants\<close> scans its own
  table, and that of \<^verbatim>\<open>levels\<close> scans \<^verbatim>\<open>room_participants\<close>: every statement on these two tables
  that reads rows is rejected, for every caller. The depth bound of \<open>loops\<close> is not what
  decides: a larger one gives the same answers.
\<close>

lemma recursion_users [simp]: "infinite_recursion cmd Users = False"
  by (cases cmd) (simp_all add: infinite_recursion_def eval_nat_numeral)

lemma recursion_rooms [simp]: "infinite_recursion cmd Rooms = False"
  by (cases cmd) (simp_all add: infinite_recursion_def eval_nat_numeral)

lemma recursion_submissions [simp]: "infinite_recursion cmd Submissions = False"
  by (cases cmd) (simp_all add: infinite_recursion_def eval_nat_numeral)

lemma recursion_room_participants:
  "infinite_recursion cmd RoomParticipants \<longleftrightarrow> cmd \<noteq> INSERT"
  by (cases cmd) (simp_all add: infinite_recursion_def eval_nat_numeral)

lemma recursion_levels: "infinite_recursion cmd Levels \<longleftrightarrow> cmd \<noteq> INSERT"
  by (cases cmd) (simp_all add: infinite_recursion_def eval_nat_numeral)

lemma loops_depth:
  "loops (6 + k) [] cmd t = loops 6 [] cmd t"
  by (cases t; cases cmd) (simp_all add: eval_nat_numeral)


lemma select_room_participants_rejected:
  "select_from RoomParticipants room_participants_policy db uid rows = Inl InvalidObjectDefinition"
  by (simp add: select_from_def recursion_room_participants)

lemma select_levels_rejected:
  "select_from Levels levels_policy db uid rows = Inl InvalidObjectDefinition"
  by (simp add: select_from_def recursion_levels)


lemma exec_update_levels:
  "exec uid (UpdateLevels wh lim patch) db = Inl InvalidObjectDefinition"
  by (simp add: expanded_def recursion_levels)


subsection \<open>Statements without a policy change nothing\<close>

lemma update_first_denied: "update_first lim (\<lambda>r. False) f rs = rs"
  by (induction rs arbitrary: lim) auto

lemma update_rows_no_policy:
  "pols UPDATE = None \<Longrightarrow> update_rows pols db uid wh lim patch rows = rows"
  by (simp add: update_rows_def permitted_def update_first_denied)

lemma delete_rows_no_policy:
  "pols DELETE = None \<Longrightarrow> delete_rows pols db uid wh rows = rows"
  by (simp add: delete_rows_def permitted_def)

lemma send_update_rooms: "send uid (UpdateRooms wh lim patch) db = db"
  by (simp add: send_def unread_def expanded_def update_rows_no_policy)


lemma select_rooms_all: "select_from Rooms rooms_policy db uid rs = Inr rs"
  by (simp add: select_from_def select_rows_def permitted_def)

lemma select_users_own:
  "select_rows users_policy db uid (users db) = filter (\<lambda>r. u_id r = uid) (users db)"
  unfolding select_rows_def by (rule filter_cong) (auto simp: permitted_def)

lemma select_from_users:
  "select_from Users users_policy db uid (users db) = Inr (filter (\<lambda>r. u_id r = uid) (users db))"
  by (simp add: select_from_def select_users_own)


subsection \<open>Generated identifiers are fresh\<close>




subsection \<open>Room activation and deactivation\<close>

text \<open>
  The activation statement names the column \<^verbatim>\<open>status\<close> of \<^verbatim>\<open>levels\<close>, which the table does not
  have: it is rejected, whatever the room and the caller. The handler does not read that
  result, and its update of \<^verbatim>\<open>rooms\<close> touches no row (no \<^verbatim>\<open>UPDATE\<close> policy): the handler
  leaves the database as it was, in both directions.
\<close>

lemma resolve_levels_status:
  "resolve_update levels_columns [(''status'', v)] filters = Inl UndefinedColumn"
  by (simp add: resolve_update_def levels_columns_def uuid_column_def text_column_def
        jsonb_column_def timestamptz_column_def)


lemma activation_statement_rejected:
  "update_levels db uid [(''status'', SqlText ''active'')]
     [(''room_id'', SqlUuid roomId), (''status'', SqlText ''waiting'')] (Some 1)
   = Inl UndefinedColumn"
  by (simp add: update_levels_def resolve_levels_status)

lemma unread_update_rooms: "unread db (update_rooms db uid body filters lim) = db"
  by (cases "resolve_update rooms_columns body filters")
     (auto simp: update_rooms_def unread_def expanded_def update_rows_no_policy)

lemma unread_update_levels: "unread db (update_levels db uid body filters lim) = db"
  by (cases "resolve_update levels_columns body filters")
     (auto simp: update_levels_def unread_def exec_update_levels simp del: exec.simps)

lemma toggleRoomStatus_unchanged: "toggleRoomStatus db uid roomId currentStatus = db"
  by (simp add: toggleRoomStatus_def Let_def unread_update_levels unread_update_rooms)


text \<open>
  C8. For a room in status active, the creator's deactivation
  (\<^verbatim>\<open>toggleRoomStatus(roomId, 'active')\<close>) changes at most the status field of that room:
  every level row, of this room and of every other, is as before; so are the rows of the
  other rooms, every field but the status of this room's row, and the other tables.
\<close>

theorem toggleRoomStatus_deactivation_frame:
  "levels (toggleRoomStatus db uid roomId ''active'') = levels db
   \<and> map (\<lambda>r. r\<lparr>r_status := ''''\<rparr>) (rooms (toggleRoomStatus db uid roomId ''active''))
     = map (\<lambda>r. r\<lparr>r_status := ''''\<rparr>) (rooms db)
   \<and> filter (\<lambda>r. r_id r \<noteq> roomId) (rooms (toggleRoomStatus db uid roomId ''active''))
     = filter (\<lambda>r. r_id r \<noteq> roomId) (rooms db)
   \<and> users (toggleRoomStatus db uid roomId ''active'') = users db
   \<and> room_participants (toggleRoomStatus db uid roomId ''active'') = room_participants db
   \<and> submissions (toggleRoomStatus db uid roomId ''active'') = submissions db"
  by (simp add: toggleRoomStatus_unchanged)

theorem toggleRoomStatus_deactivation_frame_witness:
  "levels (toggleRoomStatus
             (scenario_db\<lparr>rooms := map (\<lambda>r. r\<lparr>r_status := ''active''\<rparr>) (rooms scenario_db)\<rparr>)
             1 10 ''active'')
     = levels scenario_db
   \<and> submissions (toggleRoomStatus
             (scenario_db\<lparr>rooms := map (\<lambda>r. r\<lparr>r_status := ''active''\<rparr>) (rooms scenario_db)\<rparr>)
             1 10 ''active'')
     = submissions scenario_db
   \<and> map r_status
        (rooms (scenario_db\<lparr>rooms := map (\<lambda>r. r\<lparr>r_status := ''active''\<rparr>) (rooms scenario_db)\<rparr>))
     = [''active'', ''active'']
   \<and> length (levels scenario_db) = 6"
proof -
  have a: "map r_status
        (rooms (scenario_db\<lparr>rooms := map (\<lambda>r. r\<lparr>r_status := ''active''\<rparr>) (rooms scenario_db)\<rparr>))
     = [''active'', ''active'']" by (simp add: scenario_db_def)
  have n: "length (levels scenario_db) = 6" by (simp add: scenario_db_def default_levels_def)
  from toggleRoomStatus_deactivation_frame
         [of "scenario_db\<lparr>rooms := map (\<lambda>r. r\<lparr>r_status := ''active''\<rparr>) (rooms scenario_db)\<rparr>" 1 10]
    a n
  show ?thesis by simp
qed

subsection \<open>Who can read \<^verbatim>\<open>room_participants\<close> and \<^verbatim>\<open>users\<close>\<close>

text \<open>
  C2. A \<^verbatim>\<open>room_participants\<close> row is visible to a user only if the user has a participant
  row in the same room, and a user with no membership sees no row at all. Both hold because
  the policy scans its own table: every \<^verbatim>\<open>SELECT\<close> on \<^verbatim>\<open>room_participants\<close> is rejected, so no
  caller is returned any row, a member of the row's room no more than anyone else.
\<close>

theorem room_participants_select_closed:
  "select_from RoomParticipants room_participants_policy db uid (room_participants db)
     = Inl InvalidObjectDefinition
   \<and> (\<not> list_ex (\<lambda>q. rp_room_id q = rp_room_id p \<and> rp_user_id q = uid) (room_participants db)
        \<longrightarrow> p \<notin> set (returned_rows
               (select_from RoomParticipants room_participants_policy db uid
                  (room_participants db))))
   \<and> (\<not> list_ex (\<lambda>q. rp_user_id q = uid) (room_participants db)
        \<longrightarrow> returned_rows
              (select_from RoomParticipants room_participants_policy db uid
                 (room_participants db)) = [])"
  by (simp add: select_room_participants_rejected returned_rows_def)

theorem room_participants_select_closed_witness:
  "room_participants scenario_db ! 1
     \<notin> set (returned_rows
              (select_from RoomParticipants room_participants_policy scenario_db 1
                 (room_participants scenario_db)))
   \<and> rp_room_id (room_participants scenario_db ! 1) = 20
   \<and> returned_rows
        (select_from RoomParticipants room_participants_policy scenario_db 3
           (room_participants scenario_db)) = []"
proof -
  have a: "\<not> list_ex (\<lambda>q. rp_room_id q = rp_room_id (room_participants scenario_db ! 1)
                          \<and> rp_user_id q = 1)
             (room_participants scenario_db)"
    by (simp add: scenario_db_def)
  have b: "\<not> list_ex (\<lambda>q. rp_user_id q = 3) (room_participants scenario_db)"
    by (simp add: scenario_db_def)
  have c: "rp_room_id (room_participants scenario_db ! 1) = 20" by (simp add: scenario_db_def)
  from room_participants_select_closed [of scenario_db 1 "room_participants scenario_db ! 1"]
    room_participants_select_closed [of scenario_db 3] a b c
  show ?thesis by blast
qed

lemma filter_distinct_le_one:
  "distinct (map f xs) \<Longrightarrow> length (filter (\<lambda>r. f r = k) xs) \<le> Suc 0"
proof (induction xs)
  case Nil
  show ?case by simp
next
  case (Cons x xs)
  show ?case
  proof (cases "f x = k")
    case True
    from Cons.prems have "f x \<notin> f ` set xs" by simp
    with True have "\<forall>r\<in>set xs. f r \<noteq> k" by blast
    then have "filter (\<lambda>r. f r = k) xs = []" by (simp add: filter_empty_conv)
    with True show ?thesis by simp
  next
    case False
    with Cons show ?thesis by simp
  qed
qed

text \<open>
  C9. A \<^verbatim>\<open>SELECT\<close> on \<^verbatim>\<open>users\<close> by user \<open>uid\<close> returns exactly the rows whose id is \<open>uid\<close>.
  So the Dashboard's top-users query gives the same list in any two databases that agree
  on the rows with that id, whatever the other users' rows are; every entry of the list is
  the username and points of a row with that id; and with the primary key on \<^verbatim>\<open>users.id\<close>
  the list has at most one entry.
\<close>

theorem users_select_own_row_only:
  "select_rows users_policy db uid (users db) = filter (\<lambda>r. u_id r = uid) (users db)
   \<and> (filter (\<lambda>r. u_id r = uid) (users db) = filter (\<lambda>r. u_id r = uid) (users db')
        \<longrightarrow> topUsers (fetchData db uid st) = topUsers (fetchData db' uid st))
   \<and> set (topUsers (fetchData db uid st))
        \<subseteq> (\<lambda>r. (username r, points r)) ` {r \<in> set (users db). u_id r = uid}
   \<and> (distinct (map u_id (users db)) \<longrightarrow> length (topUsers (fetchData db uid st)) \<le> 1)"
proof -
  have sel: "\<And>d. select_rows users_policy d uid (users d) = filter (\<lambda>r. u_id r = uid) (users d)"
    by (rule select_users_own)
  have sub: "set (topUsers (fetchData db uid st))
        \<subseteq> (\<lambda>r. (username r, points r)) ` {r \<in> set (users db). u_id r = uid}"
  proof
    fix x assume "x \<in> set (topUsers (fetchData db uid st))"
    then obtain r
      where r: "r \<in> set (take 5 (sort_key (\<lambda>r. - points r)
                                   (filter (\<lambda>r. u_id r = uid) (users db))))"
        and x: "x = (username r, points r)"
      by (auto simp: fetchData_def select_from_users)
    from r have "r \<in> set (sort_key (\<lambda>r. - points r) (filter (\<lambda>r. u_id r = uid) (users db)))"
      by (rule in_set_takeD)
    then have "r \<in> set (users db) \<and> u_id r = uid" by simp
    with x show "x \<in> (\<lambda>r. (username r, points r)) ` {r \<in> set (users db). u_id r = uid}"
      by blast
  qed
  have len: "length (topUsers (fetchData db uid st)) \<le> 1" if "distinct (map u_id (users db))"
  proof -
    have "length (topUsers (fetchData db uid st))
          \<le> length (filter (\<lambda>r. u_id r = uid) (users db))"
      by (simp add: fetchData_def select_from_users)
    also have "\<dots> \<le> Suc 0" using that by (rule filter_distinct_le_one)
    finally show ?thesis by simp
  qed
  show ?thesis using sub len by (simp add: sel fetchData_def select_from_users)
qed


theorem users_select_own_row_only_witness:
  "topUsers (fetchData scenario_db 1 scenario_dashboard)
     = topUsers
         (fetchData
            (scenario_db\<lparr>users := map (\<lambda>r. if u_id r = 1 then r else r\<lparr>points := 9000\<rparr>)
                                   (users scenario_db)\<rparr>) 1
            scenario_dashboard)
   \<and> length (topUsers (fetchData scenario_db 1 scenario_dashboard)) \<le> 1
   \<and> map points (users scenario_db) = [300, 500, 0]"
proof -
  have same: "filter (\<lambda>r. u_id r = 1) (users scenario_db)
      = filter (\<lambda>r. u_id r = 1)
          (users (scenario_db\<lparr>users := map (\<lambda>r. if u_id r = 1 then r else r\<lparr>points := 9000\<rparr>)
                                   (users scenario_db)\<rparr>))"
    by (simp add: scenario_db_def)
  have pk: "distinct (map u_id (users scenario_db))" by (simp add: scenario_db_def)
  have n: "map points (users scenario_db) = [300, 500, 0]" by (simp add: scenario_db_def)
  from users_select_own_row_only [of scenario_db 1
              "scenario_db\<lparr>users := map (\<lambda>r. if u_id r = 1 then r else r\<lparr>points := 9000\<rparr>)
                                   (users scenario_db)\<rparr>"
              scenario_dashboard]
    same pk n
  show ?thesis by blast
qed

subsection \<open>Submissions: who inserts, and what stays\<close>

lemma exec_submissions:
  "exec uid a db = Inr db' \<Longrightarrow>
   submissions db' = submissions db @ (case a of InsertSubmissions row \<Rightarrow> [row] | _ \<Rightarrow> [])"
  by (cases a)
     (auto simp: insert_users_def insert_rooms_def insert_room_participants_def
        insert_levels_def insert_submissions_def expanded_def update_rows_no_policy
        delete_rows_no_policy
        split: if_splits)

lemma exec_insert_submissions_owner:
  "exec uid (InsertSubmissions row) db = Inr db' \<Longrightarrow> s_user_id row = uid"
  by (auto simp: insert_submissions_def permitted_def split: if_splits)

lemma step_provenance: "provenance_ok w \<Longrightarrow> provenance_ok (step ua w)"
proof (cases "exec (fst ua) (snd ua) (store w)")
  case (Inl e)
  assume "provenance_ok w"
  with Inl show ?thesis by (simp add: step_def)
next
  case (Inr db')
  assume ok: "provenance_ok w"
  note sub = exec_submissions [OF Inr]
  show ?thesis
  proof (cases "snd ua")
    case (InsertSubmissions row)
    with Inr have "s_user_id row = fst ua"
      using exec_insert_submissions_owner [of "fst ua" row "store w" db'] by simp
    with ok sub Inr InsertSubmissions show ?thesis
      by (simp add: step_def provenance_ok_def)
  qed (use ok sub Inr in \<open>simp_all add: step_def provenance_ok_def\<close>)
qed

lemma run_provenance: "provenance_ok w \<Longrightarrow> provenance_ok (run history w)"
  unfolding run_def by (induction history arbitrary: w) (simp_all add: step_provenance)

text \<open>
  C3. The \<^verbatim>\<open>INSERT\<close> policy of \<^verbatim>\<open>submissions\<close> admits a row for user \<open>uid\<close> exactly when the
  row's \<^verbatim>\<open>user_id\<close> is \<open>uid\<close>, and an insert is rejected for insufficient privilege exactly
  when it is not. Hence, starting from a database without submissions (levels cannot be
  inserted by a client, so a database in use has been seeded) and after any history of
  client statements by any users, the table holds exactly the accepted rows, and each
  row's \<^verbatim>\<open>user_id\<close> is the identity that inserted it.
\<close>

theorem submissions_insert_only_as_self:
  "(permitted (submissions_policy INSERT) db uid row \<longleftrightarrow> s_user_id row = uid)
   \<and> (insert_submissions db uid row = Inl InsufficientPrivilege \<longleftrightarrow> s_user_id row \<noteq> uid)
   \<and> (submissions db = [] \<longrightarrow> provenance_ok (run history \<lparr>store = db, inserted_by = []\<rparr>))"
proof -
  have "provenance_ok \<lparr>store = db, inserted_by = []\<rparr>" if "submissions db = []"
    using that by (simp add: provenance_ok_def)
  then show ?thesis
    by (auto simp: permitted_def insert_submissions_def intro: run_provenance)
qed

theorem submissions_insert_only_as_self_witness:
  "\<not> permitted (submissions_policy INSERT) scenario_db 2 scenario_submission
   \<and> insert_submissions scenario_db 2 scenario_submission = Inl InsufficientPrivilege
   \<and> provenance_ok
        (run [(1, InsertSubmissions scenario_submission),
              (2, InsertSubmissions (scenario_submission\<lparr>s_id := 5001\<rparr>))]
           \<lparr>store = scenario_db, inserted_by = []\<rparr>)
   \<and> inserted_by
        (run [(1, InsertSubmissions scenario_submission),
              (2, InsertSubmissions (scenario_submission\<lparr>s_id := 5001\<rparr>))]
           \<lparr>store = scenario_db, inserted_by = []\<rparr>) = [(1, scenario_submission)]"
proof -
  have e: "submissions scenario_db = []" by (simp add: scenario_db_def)
  have u: "s_user_id scenario_submission \<noteq> 2" by (simp add: scenario_submission_def)
  have r: "inserted_by
        (run [(1, InsertSubmissions scenario_submission),
              (2, InsertSubmissions (scenario_submission\<lparr>s_id := 5001\<rparr>))]
           \<lparr>store = scenario_db, inserted_by = []\<rparr>) = [(1, scenario_submission)]"
    by (simp add: run_def step_def insert_submissions_def permitted_def scenario_db_def
          default_levels_def scenario_submission_def)
  show ?thesis
    using e u r
      submissions_insert_only_as_self [of scenario_db 2 scenario_submission
             "[(1, InsertSubmissions scenario_submission),
               (2, InsertSubmissions (scenario_submission\<lparr>s_id := 5001\<rparr>))]"]
    by simp
qed

lemma step_store_prefix:
  "take (length (submissions (store w))) (submissions (store (step ua w))) = submissions (store w)"
proof (cases "exec (fst ua) (snd ua) (store w)")
  case (Inl e)
  then show ?thesis by (simp add: step_def)
next
  case (Inr db')
  from exec_submissions [OF Inr] Inr show ?thesis by (simp add: step_def)
qed

lemma step_length: "length (submissions (store w)) \<le> length (submissions (store (step ua w)))"
proof (cases "exec (fst ua) (snd ua) (store w)")
  case (Inl e)
  then show ?thesis by (simp add: step_def)
next
  case (Inr db')
  from exec_submissions [OF Inr] Inr show ?thesis by (simp add: step_def)
qed

lemma run_store_prefix:
  "take (length (submissions (store w))) (submissions (store (run history w)))
   = submissions (store w)"
  unfolding run_def
proof (induction history arbitrary: w)
  case Nil
  show ?case by simp
next
  case (Cons ua history)
  let ?w' = "step ua w"
  have a: "take (length (submissions (store ?w'))) (submissions (store (fold step history ?w')))
           = submissions (store ?w')" by (rule Cons.IH)
  have b: "take (length (submissions (store w))) (submissions (store ?w')) = submissions (store w)"
    by (rule step_store_prefix)
  have c: "length (submissions (store w)) \<le> length (submissions (store ?w'))"
    by (rule step_length)
  have "take (length (submissions (store w))) (submissions (store (fold step history ?w')))
        = take (length (submissions (store w)))
            (take (length (submissions (store ?w')))
               (submissions (store (fold step history ?w'))))"
    using c by (simp add: min_absorb1)
  also have "\<dots> = submissions (store w)" using a b by simp
  finally show ?case by simp
qed

text \<open>
  C7. Submissions are append-only. An \<^verbatim>\<open>UPDATE\<close> or a \<^verbatim>\<open>DELETE\<close> on \<^verbatim>\<open>submissions\<close>, by any
  user (the rows' owner too), with any condition and any new values, leaves the database
  as it was: the table has no policy for either command. And after any history of client
  statements the rows that were in the table are still its first rows, unchanged and in
  place: rows are only ever added after them.
\<close>

theorem submissions_append_only:
  "exec uid (UpdateSubmissions wh lim patch) db = Inr db
   \<and> exec uid (DeleteSubmissions wh) db = Inr db
   \<and> take (length (submissions (store w))) (submissions (store (run history w)))
     = submissions (store w)"
  by (simp add: expanded_def update_rows_no_policy delete_rows_no_policy run_store_prefix)

theorem submissions_append_only_witness:
  "exec 1 (UpdateSubmissions (\<lambda>r. s_id r = 5000) None (\<lambda>r. r\<lparr>s_points := 1000\<rparr>))
       (scenario_db\<lparr>submissions := [scenario_submission]\<rparr>)
     = Inr (scenario_db\<lparr>submissions := [scenario_submission]\<rparr>)
   \<and> exec 1 (DeleteSubmissions (\<lambda>r. s_id r = 5000))
       (scenario_db\<lparr>submissions := [scenario_submission]\<rparr>)
     = Inr (scenario_db\<lparr>submissions := [scenario_submission]\<rparr>)
   \<and> take 1
        (submissions (store
           (run [(1, UpdateSubmissions (\<lambda>r. s_id r = 5000) None (\<lambda>r. r\<lparr>s_points := 1000\<rparr>)),
                 (1, DeleteSubmissions (\<lambda>r. s_id r = 5000)),
                 (1, InsertSubmissions (scenario_submission\<lparr>s_id := 5001\<rparr>))]
              \<lparr>store = scenario_db\<lparr>submissions := [scenario_submission]\<rparr>,
               inserted_by = [(1, scenario_submission)]\<rparr>)))
     = [scenario_submission]"
  using submissions_append_only
          [of 1 "\<lambda>r. s_id r = 5000" None "\<lambda>r. r\<lparr>s_points := 1000\<rparr>"
              "scenario_db\<lparr>submissions := [scenario_submission]\<rparr>"
              "\<lparr>store = scenario_db\<lparr>submissions := [scenario_submission]\<rparr>,
                inserted_by = [(1, scenario_submission)]\<rparr>"
              "[(1, UpdateSubmissions (\<lambda>r. s_id r = 5000) None (\<lambda>r. r\<lparr>s_points := 1000\<rparr>)),
                (1, DeleteSubmissions (\<lambda>r. s_id r = 5000)),
                (1, InsertSubmissions (scenario_submission\<lparr>s_id := 5001\<rparr>))]"]
  by simp
subsection \<open>Joining a room\<close>

text \<open>
  C6. When a \<^verbatim>\<open>room_participants\<close> row for the pair (room, user) exists, the user's second
  insert for that pair is rejected (the \<^verbatim>\<open>UNIQUE(room_id, user_id)\<close> constraint), and a
  second \<^verbatim>\<open>handleJoinRoom\<close> for that room leaves the database as it was.
\<close>

theorem join_twice_rejected:
  "list_ex (\<lambda>q. rp_room_id q = roomId \<and> rp_user_id q = uid) (room_participants db) \<Longrightarrow>
   insert_room_participants db uid
       \<lparr>rp_id = new_id, rp_room_id = roomId, rp_user_id = uid, joined_at = now\<rparr>
     = Inl UniqueViolation
   \<and> (single (filter (\<lambda>r. r_code r = roomCode st) (rooms db)) = Some room \<and> r_id room = roomId
        \<longrightarrow> fst (handleJoinRoom db uid now st) = db)"
proof -
  assume "list_ex (\<lambda>q. rp_room_id q = roomId \<and> rp_user_id q = uid) (room_participants db)"
  then have dup:
    "(roomId, uid) \<in> set (map (\<lambda>q. (rp_room_id q, rp_user_id q)) (room_participants db))"
    by (force simp: list_ex_iff)
  have ins: "insert_room_participants db uid
       \<lparr>rp_id = i, rp_room_id = roomId, rp_user_id = uid, joined_at = now\<rparr>
     = Inl UniqueViolation" for i
    using dup by (simp add: insert_room_participants_def permitted_def)
  show ?thesis
    by (auto simp: ins handleJoinRoom_def select_rooms_all returned_rows_def send_def
          unread_def)
qed

theorem join_twice_rejected_witness:
  "insert_room_participants scenario_db 1
       \<lparr>rp_id = 7, rp_room_id = 10, rp_user_id = 1, joined_at = 9\<rparr> = Inl UniqueViolation
   \<and> fst (handleJoinRoom scenario_db 1 9 scenario_dashboard) = scenario_db"
  using join_twice_rejected [of 10 1 scenario_db 7 9 scenario_dashboard "rooms scenario_db ! 0"]
  by (simp add: scenario_db_def scenario_dashboard_def single_def)

text \<open>
  C10. When the room code resolves to a room, \<^verbatim>\<open>handleJoinRoom\<close> navigates to that room's
  page and leaves the page's error message as it was, whatever the insert returned. In
  particular, when the insert is rejected (with any error), the database is unchanged, the
  navigation still happens and no error is shown.
\<close>

theorem handleJoinRoom_navigates_regardless:
  "single (filter (\<lambda>r. r_code r = roomCode st) (rooms db)) = Some room \<Longrightarrow>
   snd (handleJoinRoom db uid now st) = st\<lparr>location := Some (RoomRoute (r_id room))\<rparr>
   \<and> dash_error (snd (handleJoinRoom db uid now st)) = dash_error st
   \<and> (\<forall>e. insert_room_participants db uid
              \<lparr>rp_id = gen_random_uuid (map rp_id (room_participants db)),
               rp_room_id = r_id room, rp_user_id = uid, joined_at = now\<rparr> = Inl e
          \<longrightarrow> handleJoinRoom db uid now st
              = (db, st\<lparr>location := Some (RoomRoute (r_id room))\<rparr>))"
  by (simp add: handleJoinRoom_def select_rooms_all returned_rows_def send_def unread_def)

theorem handleJoinRoom_navigates_regardless_witness:
  "handleJoinRoom scenario_db 1 9 scenario_dashboard
     = (scenario_db, scenario_dashboard\<lparr>location := Some (RoomRoute 10)\<rparr>)
   \<and> insert_room_participants scenario_db 1
        \<lparr>rp_id = 1002, rp_room_id = 10, rp_user_id = 1, joined_at = 9\<rparr> = Inl UniqueViolation"
proof -
  have s: "single (filter (\<lambda>r. r_code r = roomCode scenario_dashboard) (rooms scenario_db))
           = Some (rooms scenario_db ! 0)"
    by (simp add: scenario_db_def scenario_dashboard_def single_def)
  have g: "gen_random_uuid (map rp_id (room_participants scenario_db)) = 1002"
    by (simp add: gen_random_uuid_def scenario_db_def)
  have i: "insert_room_participants scenario_db 1
        \<lparr>rp_id = 1002, rp_room_id = 10, rp_user_id = 1, joined_at = 9\<rparr> = Inl UniqueViolation"
    by (simp add: insert_room_participants_def permitted_def scenario_db_def)
  have r: "r_id (rooms scenario_db ! 0) = 10" by (simp add: scenario_db_def)
  from handleJoinRoom_navigates_regardless [OF s, of 1 9] g i r show ?thesis by simp
qed

subsection \<open>Running the tests\<close>

text \<open>
  For a primitive output, \<^verbatim>\<open>output.toString()\<close> returns a string exactly when the output is
  neither \<^verbatim>\<open>undefined\<close> nor \<^verbatim>\<open>null\<close>, and that string is \<^verbatim>\<open>String(output)\<close>.
\<close>

lemma toString_primitive:
  "toString out = ToStr s \<longleftrightarrow>
     (case out of JObject method \<Rightarrow> method = ToStr s
      | _ \<Rightarrow> out \<noteq> JUndefined \<and> out \<noteq> JNull \<and> String_spec out = Some s)"
  by (cases out) auto





















end
